theory Spec2Isabelle
  imports Complex_Main
begin

section \<open>JavaScript values\<close>

text \<open>
  The raw patient records are untyped JSON values, so the fields are modelled by a
  datatype of JavaScript values. A number is an exact rational, or one of the three
  special values of the number type; the rounding of IEEE doubles is not modelled, so
  the decimal literal \<open>99.6\<close> is the rational \<open>996/10\<close>. An object is the list of its
  own properties (an array is an object whose keys are its indices).
\<close>

datatype jsnum = NaN | NegInf | Fin rat | PosInf

datatype jsval =
    JUndefined
  | JNull
  | JBool bool
  | JNum jsnum
  | JStr string
  | JObj "(string \<times> jsval) list"

text \<open>The comparisons of a number with a finite literal: every comparison with \<open>NaN\<close> is false.\<close>

fun js_lt :: "jsnum \<Rightarrow> rat \<Rightarrow> bool" where
  "js_lt NaN c = False"
| "js_lt NegInf c = True"
| "js_lt (Fin x) c = (x < c)"
| "js_lt PosInf c = False"

fun js_le :: "jsnum \<Rightarrow> rat \<Rightarrow> bool" where
  "js_le NaN c = False"
| "js_le NegInf c = True"
| "js_le (Fin x) c = (x \<le> c)"
| "js_le PosInf c = False"

fun js_gt :: "jsnum \<Rightarrow> rat \<Rightarrow> bool" where
  "js_gt NaN c = False"
| "js_gt NegInf c = False"
| "js_gt (Fin x) c = (c < x)"
| "js_gt PosInf c = True"

fun js_ge :: "jsnum \<Rightarrow> rat \<Rightarrow> bool" where
  "js_ge NaN c = False"
| "js_ge NegInf c = False"
| "js_ge (Fin x) c = (c \<le> x)"
| "js_ge PosInf c = True"

definition isNaN :: "jsnum \<Rightarrow> bool" where
  "isNaN n = (n = NaN)"

text \<open>\<open>Math.round\<close>: the nearest integer, a half rounded towards plus infinity.\<close>

fun math_round :: "jsnum \<Rightarrow> jsnum" where
  "math_round (Fin x) = Fin (of_int \<lfloor>x + 1 / 2\<rfloor>)"
| "math_round n = n"

text \<open>
  Truthiness, as the guard \<open>!patient?.patient_id\<close> reads it: \<open>undefined\<close>, \<open>null\<close>,
  \<open>false\<close>, \<open>0\<close>, \<open>NaN\<close> and the empty string are falsy.
\<close>

fun truthy :: "jsval \<Rightarrow> bool" where
  "truthy JUndefined = False"
| "truthy JNull = False"
| "truthy (JBool b) = b"
| "truthy (JNum n) = (n \<noteq> NaN \<and> n \<noteq> Fin 0)"
| "truthy (JStr s) = (s \<noteq> [])"
| "truthy (JObj fs) = True"

text \<open>
  Reading a property: an absent property is \<open>undefined\<close>, and so is any of the
  properties read here on a primitive value. On \<open>null\<close> and \<open>undefined\<close> the read
  throws; the callers below guard against that before they read.
\<close>

fun get_prop :: "jsval \<Rightarrow> string \<Rightarrow> jsval" where
  "get_prop (JObj fs) k = (case map_of fs k of Some v \<Rightarrow> v | None \<Rightarrow> JUndefined)"
| "get_prop v k = JUndefined"

section \<open>Strings\<close>

text \<open>
  A string is a list of 8-bit characters, read as Latin-1: the degree sign is the
  character \<open>0xB0\<close> and the masculine ordinal indicator is \<open>0xBA\<close>. The characters
  that \<open>trim\<close> and \<open>parseFloat\<close> skip are the white space and line terminators of the
  language in that range.
\<close>

definition is_ws :: "char \<Rightarrow> bool" where
  "is_ws c = (c \<in> set [CHR 0x09, CHR 0x0A, CHR 0x0B, CHR 0x0C, CHR 0x0D, CHR 0x20, CHR 0xA0])"

definition trim :: "string \<Rightarrow> string" where
  "trim s = rev (dropWhile is_ws (rev (dropWhile is_ws s)))"

definition lower_char :: "char \<Rightarrow> char" where
  "lower_char c =
     (let n = (of_char c :: nat)
      in if (65 \<le> n \<and> n \<le> 90) \<or> (192 \<le> n \<and> n \<le> 222 \<and> n \<noteq> 215)
         then char_of (n + 32) else c)"

definition toLowerCase :: "string \<Rightarrow> string" where
  "toLowerCase s = map lower_char s"

fun starts_with :: "string \<Rightarrow> string \<Rightarrow> bool" where
  "starts_with [] s = True"
| "starts_with (p # ps) [] = False"
| "starts_with (p # ps) (c # cs) = (p = c \<and> starts_with ps cs)"

text \<open>\<open>s.includes(pat)\<close>: \<open>pat\<close> occurs in \<open>s\<close> as a contiguous substring.\<close>

fun includes_str :: "string \<Rightarrow> string \<Rightarrow> bool" where
  "includes_str [] pat = (pat = [])"
| "includes_str (c # cs) pat = (starts_with pat (c # cs) \<or> includes_str cs pat)"

text \<open>\<open>s.split(sep)\<close> for a separator of one character.\<close>

fun split_on :: "char \<Rightarrow> string \<Rightarrow> string list" where
  "split_on sep [] = [[]]"
| "split_on sep (c # cs) =
     (if c = sep then [] # split_on sep cs
      else (case split_on sep cs of
              [] \<Rightarrow> [[c]]
            | p # ps \<Rightarrow> (c # p) # ps))"

definition is_digit :: "char \<Rightarrow> bool" where
  "is_digit c = (c \<in> set ''0123456789'')"

definition digit_val :: "char \<Rightarrow> nat" where
  "digit_val c = of_char c - 48"

text \<open>The value of a string of decimal digits, most significant digit first.\<close>

definition digits_val :: "string \<Rightarrow> nat" where
  "digits_val ds = foldl (\<lambda>a c. 10 * a + digit_val c) 0 ds"

text \<open>A mantissa scaled by a power of ten, for an exponent of either sign.\<close>

definition scale10 :: "rat \<Rightarrow> int \<Rightarrow> rat" where
  "scale10 x e = (if 0 \<le> e then x * 10 ^ nat e else x / 10 ^ nat (- e))"

text \<open>
  The exponent part of a decimal literal, read from the text that follows the
  mantissa: \<open>e\<close> or \<open>E\<close>, an optional sign, and at least one digit. Anything else is
  no exponent, and the literal ends before it.
\<close>

definition exponent_part :: "string \<Rightarrow> int" where
  "exponent_part r =
     (case r of
        [] \<Rightarrow> 0
      | c # r' \<Rightarrow>
          if c = CHR ''e'' \<or> c = CHR ''E'' then
            (let neg = (r' \<noteq> [] \<and> hd r' = CHR ''-'');
                 d = (if r' \<noteq> [] \<and> (hd r' = CHR ''-'' \<or> hd r' = CHR ''+'') then tl r' else r');
                 ds = takeWhile is_digit d
             in if ds = [] then 0
                else if neg then - int (digits_val ds) else int (digits_val ds))
          else 0)"

text \<open>
  \<open>parseFloat\<close>: skip leading white space, then take the longest prefix that is a
  decimal literal (an optional sign, then \<open>Infinity\<close>, or digits with an optional
  fraction and exponent) and ignore whatever follows it. With no such prefix the
  result is \<open>NaN\<close>.
\<close>

definition parseFloat :: "string \<Rightarrow> jsnum" where
  "parseFloat str =
     (let s = dropWhile is_ws str;
          neg = (s \<noteq> [] \<and> hd s = CHR ''-'');
          u = (if s \<noteq> [] \<and> (hd s = CHR ''-'' \<or> hd s = CHR ''+'') then tl s else s)
      in if starts_with ''Infinity'' u then (if neg then NegInf else PosInf)
         else
           (let ip = takeWhile is_digit u;
                r1 = dropWhile is_digit u;
                dot = (r1 \<noteq> [] \<and> hd r1 = CHR ''.'');
                fp = (if dot then takeWhile is_digit (tl r1) else []);
                r2 = (if dot then dropWhile is_digit (tl r1) else r1)
            in if ip = [] \<and> fp = [] then NaN
               else
                 (let m = scale10 (rat_of_nat (digits_val (ip @ fp)) / 10 ^ length fp)
                            (exponent_part r2)
                  in Fin (if neg then - m else m))))"

section \<open>The data processor\<close>

text \<open>
  The result of normalising one field. \<open>value\<close>, \<open>systolic\<close> and \<open>diastolic\<close> are
  optional properties: \<open>None\<close> is the absent property.
\<close>

record num_data =
  valid :: bool
  num_value :: "jsnum option"
  original :: jsval

record bp_data =
  bp_valid :: bool
  systolic :: "jsnum option"
  diastolic :: "jsnum option"
  bp_original :: jsval

text \<open>
  \<open>ProcessedPatient\<close>. The interface declares \<open>id\<close> a string; \<open>processPatient\<close> stores
  the raw \<open>patient_id\<close> there whatever its run-time type, so the field holds a value.
\<close>

record ProcessedPatient =
  id_pp :: jsval
  age_data :: num_data
  blood_pressure_data :: bp_data
  temperature_data :: num_data

text \<open>The regular expression \<open>/^\d+(\.\d+)?$/\<close> of \<open>processAge\<close>.\<close>

definition age_regex_test :: "string \<Rightarrow> bool" where
  "age_regex_test s =
     (let ip = takeWhile is_digit s;
          r = dropWhile is_digit s
      in ip \<noteq> [] \<and>
         (r = [] \<or> (hd r = CHR ''.'' \<and> tl r \<noteq> [] \<and> list_all is_digit (tl r))))"

definition processAge :: "jsval \<Rightarrow> num_data" where
  "processAge age =
     (let result = \<lparr>valid = False, num_value = None, original = age\<rparr>
      in if age = JNull \<or> age = JUndefined \<or> age = JStr [] then result
         else
           (case age of
              JNum n \<Rightarrow>
                if \<not> isNaN n \<and> js_gt n 0 \<and> js_lt n 150
                then \<lparr>valid = True, num_value = Some n, original = age\<rparr>
                else result
            | JStr s \<Rightarrow>
                (let trimmedAge = trim s
                 in if \<not> age_regex_test trimmedAge then result
                    else
                      (let numericAge = parseFloat trimmedAge
                       in if \<not> isNaN numericAge \<and> js_gt numericAge 0 \<and> js_lt numericAge 150
                          then \<lparr>valid = True, num_value = Some (math_round numericAge),
                                original = age\<rparr>
                          else result))
            | _ \<Rightarrow> result))"

text \<open>\<open>parseNumericValue\<close>; \<open>None\<close> is the \<open>null\<close> it returns.\<close>

definition parseNumericValue :: "jsval \<Rightarrow> jsnum option" where
  "parseNumericValue v =
     (case v of
        JNum n \<Rightarrow> if isNaN n then None else Some n
      | JStr s \<Rightarrow>
          (let trimmed = trim s
           in if trimmed = [] then None
              else (let parsed = parseFloat trimmed
                    in if isNaN parsed then None else Some parsed))
      | _ \<Rightarrow> None)"

definition isValidBloodPressureValue :: "jsnum \<Rightarrow> bool \<Rightarrow> bool" where
  "isValidBloodPressureValue v isSystolic =
     (if isSystolic then js_ge v 70 \<and> js_le v 300 else js_ge v 40 \<and> js_le v 200)"

definition isValidTemperature :: "jsnum \<Rightarrow> bool" where
  "isValidTemperature v = (js_ge v 90 \<and> js_le v 110)"

text \<open>The three substrings that make a blood-pressure string invalid at once.\<close>

definition bp_marked_invalid :: "string \<Rightarrow> bool" where
  "bp_marked_invalid t =
     (includes_str (toLowerCase t) ''invalid'' \<or>
      includes_str (toLowerCase t) ''n/a'' \<or>
      includes_str (toLowerCase t) ''error'')"

text \<open>The range check shared by the string branch and the object branch.\<close>

definition bp_of_pair :: "jsval \<Rightarrow> jsnum option \<Rightarrow> jsnum option \<Rightarrow> bp_data" where
  "bp_of_pair bp sys dia =
     (case (sys, dia) of
        (Some s, Some d) \<Rightarrow>
          if isValidBloodPressureValue s True \<and> isValidBloodPressureValue d False
          then \<lparr>bp_valid = True, systolic = Some s, diastolic = Some d, bp_original = bp\<rparr>
          else \<lparr>bp_valid = False, systolic = None, diastolic = None, bp_original = bp\<rparr>
      | _ \<Rightarrow> \<lparr>bp_valid = False, systolic = None, diastolic = None, bp_original = bp\<rparr>)"

definition processBloodPressure :: "jsval \<Rightarrow> bp_data" where
  "processBloodPressure bp =
     (let result = \<lparr>bp_valid = False, systolic = None, diastolic = None, bp_original = bp\<rparr>
      in if bp = JNull \<or> bp = JUndefined \<or> bp = JStr [] then result
         else
           (case bp of
              JStr s \<Rightarrow>
                (let trimmedBp = trim s
                 in if bp_marked_invalid trimmedBp then result
                    else if includes_str trimmedBp ''/'' then
                      (case split_on CHR ''/'' trimmedBp of
                         [p0, p1] \<Rightarrow>
                           (let systolicStr = trim p0;
                                diastolicStr = trim p1
                            in if systolicStr = [] \<or> diastolicStr = [] then result
                               else bp_of_pair bp (parseNumericValue (JStr systolicStr))
                                                  (parseNumericValue (JStr diastolicStr)))
                       | _ \<Rightarrow> result)
                    else result)
            | JObj fs \<Rightarrow>
                bp_of_pair bp (parseNumericValue (get_prop bp ''systolic''))
                              (parseNumericValue (get_prop bp ''diastolic''))
            | _ \<Rightarrow> result))"

text \<open>
  The global, case-insensitive replacement of \<open>processTemperature\<close> deletes every
  degree sign, every ordinal indicator and every letter \<open>f\<close> of either case. (The
  fourth character of its class, the single sign for degrees Fahrenheit, is outside
  Latin-1.)
\<close>

definition strip_units :: "string \<Rightarrow> string" where
  "strip_units t = filter (\<lambda>c. c \<notin> set [CHR 0xB0, CHR 0xBA, CHR ''f'', CHR ''F'']) t"

definition temp_marked_invalid :: "string \<Rightarrow> bool" where
  "temp_marked_invalid t =
     (includes_str (toLowerCase t) ''temp_error'' \<or>
      includes_str (toLowerCase t) ''invalid'' \<or>
      includes_str (toLowerCase t) ''n/a'' \<or>
      includes_str (toLowerCase t) ''error'')"

definition processTemperature :: "jsval \<Rightarrow> num_data" where
  "processTemperature temp =
     (let result = \<lparr>valid = False, num_value = None, original = temp\<rparr>
      in if temp = JNull \<or> temp = JUndefined \<or> temp = JStr [] then result
         else
           (case temp of
              JNum n \<Rightarrow>
                if \<not> isNaN n \<and> isValidTemperature n
                then \<lparr>valid = True, num_value = Some n, original = temp\<rparr>
                else result
            | JStr s \<Rightarrow>
                (let trimmedTemp = trim s
                 in if temp_marked_invalid trimmedTemp then result
                    else
                      (let cleanTemp = trim (strip_units trimmedTemp)
                       in case parseNumericValue (JStr cleanTemp) of
                            Some numericTemp \<Rightarrow>
                              if isValidTemperature numericTemp
                              then \<lparr>valid = True, num_value = Some numericTemp, original = temp\<rparr>
                              else result
                          | None \<Rightarrow> result))
            | _ \<Rightarrow> result))"

text \<open>
  \<open>processPatient\<close> reads four properties of the record. Reading a property of
  \<open>null\<close> or \<open>undefined\<close> throws a \<open>TypeError\<close>, which is the \<open>Inl\<close> branch.
\<close>

datatype js_error = TypeError

definition processPatient :: "jsval \<Rightarrow> js_error + ProcessedPatient" where
  "processPatient patient =
     (if patient = JNull \<or> patient = JUndefined then Inl TypeError
      else Inr \<lparr>id_pp = get_prop patient ''patient_id'',
                age_data = processAge (get_prop patient ''age''),
                blood_pressure_data = processBloodPressure (get_prop patient ''blood_pressure''),
                temperature_data = processTemperature (get_prop patient ''temperature'')\<rparr>)"

definition hasDataQualityIssues :: "ProcessedPatient \<Rightarrow> bool" where
  "hasDataQualityIssues p =
     (\<not> valid (age_data p) \<or> \<not> bp_valid (blood_pressure_data p) \<or> \<not> valid (temperature_data p))"

text \<open>
  \<open>processPatients\<close>: the loop over the batch, with the index, the results and the
  warnings it collects. \<open>patient?.patient_id\<close> is \<open>undefined\<close> when the element itself
  is \<open>null\<close> or \<open>undefined\<close>. A record with a falsy \<open>patient_id\<close> is skipped with a
  warning; an exception of \<open>processPatient\<close> is caught and turned into a warning. The
  warnings are only logged, the results are returned.
\<close>

datatype warning = NoPatientId nat | ProcessingError nat

definition optional_prop :: "jsval \<Rightarrow> string \<Rightarrow> jsval" where
  "optional_prop v k = (if v = JNull \<or> v = JUndefined then JUndefined else get_prop v k)"

fun processPatients_loop ::
  "jsval list \<Rightarrow> nat \<Rightarrow> ProcessedPatient list \<times> warning list
     \<Rightarrow> ProcessedPatient list \<times> warning list" where
  "processPatients_loop [] i (results, errors) = (results, errors)"
| "processPatients_loop (patient # rest) i (results, errors) =
     (if \<not> truthy (optional_prop patient ''patient_id'')
      then processPatients_loop rest (Suc i) (results, errors @ [NoPatientId i])
      else
        (case processPatient patient of
           Inr processed \<Rightarrow> processPatients_loop rest (Suc i) (results @ [processed], errors)
         | Inl e \<Rightarrow> processPatients_loop rest (Suc i) (results, errors @ [ProcessingError i])))"

definition processPatients :: "jsval list \<Rightarrow> ProcessedPatient list" where
  "processPatients patients = fst (processPatients_loop patients 0 ([], []))"

record Stats =
  total :: nat
  validAge :: nat
  validBP :: nat
  validTemp :: nat
  fullyValid :: nat
  dataQualityIssues :: nat

definition count_if :: "bool \<Rightarrow> nat \<Rightarrow> nat" where
  "count_if b n = (if b then Suc n else n)"

fun getProcessingStats_loop :: "ProcessedPatient list \<Rightarrow> Stats \<Rightarrow> Stats" where
  "getProcessingStats_loop [] stats = stats"
| "getProcessingStats_loop (patient # rest) stats =
     (let s1 = stats\<lparr>validAge := count_if (valid (age_data patient)) (validAge stats)\<rparr>;
          s2 = s1\<lparr>validBP := count_if (bp_valid (blood_pressure_data patient)) (validBP s1)\<rparr>;
          s3 = s2\<lparr>validTemp := count_if (valid (temperature_data patient)) (validTemp s2)\<rparr>;
          s4 = (if valid (age_data patient) \<and> bp_valid (blood_pressure_data patient) \<and>
                   valid (temperature_data patient)
                then s3\<lparr>fullyValid := Suc (fullyValid s3)\<rparr>
                else s3\<lparr>dataQualityIssues := Suc (dataQualityIssues s3)\<rparr>)
      in getProcessingStats_loop rest s4)"

definition getProcessingStats :: "ProcessedPatient list \<Rightarrow> Stats" where
  "getProcessingStats processedPatients =
     getProcessingStats_loop processedPatients
       \<lparr>total = length processedPatients, validAge = 0, validBP = 0, validTemp = 0,
        fullyValid = 0, dataQualityIssues = 0\<rparr>"

section \<open>The risk calculator\<close>

datatype BloodPressureStage = BP_NORMAL | BP_ELEVATED | BP_STAGE_1 | BP_STAGE_2 | BP_INVALID

datatype TemperatureCategory = TEMP_NORMAL | TEMP_LOW_FEVER | TEMP_HIGH_FEVER | TEMP_INVALID

text \<open>
  The chain of rules that \<open>calculateBloodPressureRisk\<close> and \<open>getBloodPressureCategory\<close>
  both apply to a pair of readings. (\<open>calculateBloodPressureRisk\<close> also computes a
  stage for each reading alone, in two locals that it never reads.)
\<close>

definition finalStage :: "jsnum \<Rightarrow> jsnum \<Rightarrow> BloodPressureStage" where
  "finalStage s d =
     (if js_lt s 120 \<and> js_lt d 80 then BP_NORMAL
      else if js_ge s 120 \<and> js_le s 129 \<and> js_lt d 80 then BP_ELEVATED
      else if (js_ge s 130 \<and> js_le s 139) \<or> (js_ge d 80 \<and> js_le d 89) then BP_STAGE_1
      else if js_ge s 140 \<or> js_ge d 90 then BP_STAGE_2
      else BP_INVALID)"

definition calculateBloodPressureRisk :: "ProcessedPatient \<Rightarrow> nat" where
  "calculateBloodPressureRisk p =
     (let bpData = blood_pressure_data p
      in case (systolic bpData, diastolic bpData) of
           (Some s, Some d) \<Rightarrow>
             if \<not> bp_valid bpData then 0
             else (case finalStage s d of
                     BP_NORMAL \<Rightarrow> 1
                   | BP_ELEVATED \<Rightarrow> 2
                   | BP_STAGE_1 \<Rightarrow> 3
                   | BP_STAGE_2 \<Rightarrow> 4
                   | BP_INVALID \<Rightarrow> 0)
         | _ \<Rightarrow> 0)"

definition calculateTemperatureRisk :: "ProcessedPatient \<Rightarrow> nat" where
  "calculateTemperatureRisk p =
     (let tempData = temperature_data p
      in case num_value tempData of
           None \<Rightarrow> 0
         | Some temperature \<Rightarrow>
             if \<not> valid tempData then 0
             else if js_le temperature 99.5 then 0
             else if js_ge temperature 99.6 \<and> js_le temperature 100.9 then 1
             else if js_ge temperature 101.0 then 2
             else 0)"

definition calculateAgeRisk :: "ProcessedPatient \<Rightarrow> nat" where
  "calculateAgeRisk p =
     (let ageData = age_data p
      in case num_value ageData of
           None \<Rightarrow> 0
         | Some age \<Rightarrow>
             if \<not> valid ageData then 0
             else if js_lt age 40 then 1
             else if js_ge age 40 \<and> js_le age 65 then 1
             else if js_gt age 65 then 2
             else 0)"

definition calculateTotalRisk :: "ProcessedPatient \<Rightarrow> nat" where
  "calculateTotalRisk p =
     (let bpScore = calculateBloodPressureRisk p;
          tempScore = calculateTemperatureRisk p;
          ageScore = calculateAgeRisk p
      in bpScore + tempScore + ageScore)"

definition isHighRisk :: "ProcessedPatient \<Rightarrow> bool" where
  "isHighRisk p = (4 \<le> calculateTotalRisk p)"

definition hasFever :: "ProcessedPatient \<Rightarrow> bool" where
  "hasFever p =
     (let tempData = temperature_data p
      in valid tempData \<and> num_value tempData \<noteq> None \<and>
         (case num_value tempData of Some v \<Rightarrow> js_ge v 99.6 | None \<Rightarrow> False))"

definition getTemperatureCategory :: "ProcessedPatient \<Rightarrow> TemperatureCategory" where
  "getTemperatureCategory p =
     (let tempData = temperature_data p
      in case num_value tempData of
           None \<Rightarrow> TEMP_INVALID
         | Some temperature \<Rightarrow>
             if \<not> valid tempData then TEMP_INVALID
             else if js_le temperature 99.5 then TEMP_NORMAL
             else if js_ge temperature 99.6 \<and> js_le temperature 100.9 then TEMP_LOW_FEVER
             else if js_ge temperature 101.0 then TEMP_HIGH_FEVER
             else TEMP_INVALID)"

section \<open>The alert lists\<close>

record SubmissionData =
  high_risk_patients :: "jsval list"
  fever_patients :: "jsval list"
  data_quality_issues :: "jsval list"

fun generateAlerts_loop :: "ProcessedPatient list \<Rightarrow> SubmissionData \<Rightarrow> SubmissionData" where
  "generateAlerts_loop [] alerts = alerts"
| "generateAlerts_loop (patient # rest) alerts =
     (let totalRisk = calculateTotalRisk patient;
          a1 = (if 4 \<le> totalRisk
                then alerts\<lparr>high_risk_patients := high_risk_patients alerts @ [id_pp patient]\<rparr>
                else alerts);
          a2 = (if hasFever patient
                then a1\<lparr>fever_patients := fever_patients a1 @ [id_pp patient]\<rparr>
                else a1);
          a3 = (if hasDataQualityIssues patient
                then a2\<lparr>data_quality_issues := data_quality_issues a2 @ [id_pp patient]\<rparr>
                else a2)
      in generateAlerts_loop rest a3)"

definition generateAlerts :: "ProcessedPatient list \<Rightarrow> SubmissionData" where
  "generateAlerts processedPatients =
     generateAlerts_loop processedPatients
       \<lparr>high_risk_patients = [], fever_patients = [], data_quality_issues = []\<rparr>"

section \<open>Reference definitions for the properties\<close>

text \<open>
  The batch of three records of the end-to-end example.
\<close>

definition example_batch :: "jsval list" where
  "example_batch =
     [JObj [(''patient_id'', JStr ''A''), (''age'', JNum (Fin 45)),
            (''blood_pressure'', JStr ''120/80''), (''temperature'', JNum (Fin 98.6))],
      JObj [(''patient_id'', JStr ''B''), (''age'', JNum (Fin 67)),
            (''blood_pressure'', JStr ''140/90''), (''temperature'', JNum (Fin 99.2))],
      JObj [(''patient_id'', JStr ''C''), (''age'', JNull),
            (''blood_pressure'', JStr ''invalid''), (''temperature'', JNum (Fin 101.8))]]"

text \<open>
  The blood-pressure rules as the specification lists them: an ordered table of
  guards and scores, read by taking the first guard that holds.
\<close>

fun first_match :: "(('a \<Rightarrow> bool) \<times> 'b) list \<Rightarrow> 'a \<Rightarrow> 'b option" where
  "first_match [] x = None"
| "first_match ((g, r) # rules) x = (if g x then Some r else first_match rules x)"

definition bp_rules :: "((jsnum \<times> jsnum \<Rightarrow> bool) \<times> nat) list" where
  "bp_rules =
     [(\<lambda>(s, d). js_lt s 120 \<and> js_lt d 80, 1),
      (\<lambda>(s, d). (js_ge s 120 \<and> js_le s 129) \<and> js_lt d 80, 2),
      (\<lambda>(s, d). (js_ge s 130 \<and> js_le s 139) \<or> (js_ge d 80 \<and> js_le d 89), 3),
      (\<lambda>(s, d). js_ge s 140 \<or> js_ge d 90, 4)]"

text \<open>Processed patients for concrete instances: one field set, the others invalid.\<close>

definition no_num :: num_data where
  "no_num = \<lparr>valid = False, num_value = None, original = JUndefined\<rparr>"

definition no_bp :: bp_data where
  "no_bp = \<lparr>bp_valid = False, systolic = None, diastolic = None, bp_original = JUndefined\<rparr>"

definition patient_with_bp :: "rat \<Rightarrow> rat \<Rightarrow> ProcessedPatient" where
  "patient_with_bp s d =
     \<lparr>id_pp = JStr ''P'', age_data = no_num,
      blood_pressure_data =
        \<lparr>bp_valid = True, systolic = Some (Fin s), diastolic = Some (Fin d),
         bp_original = JUndefined\<rparr>,
      temperature_data = no_num\<rparr>"

definition patient_with_temp :: "rat \<Rightarrow> ProcessedPatient" where
  "patient_with_temp t =
     \<lparr>id_pp = JStr ''P'', age_data = no_num, blood_pressure_data = no_bp,
      temperature_data = \<lparr>valid = True, num_value = Some (Fin t), original = JNum (Fin t)\<rparr>\<rparr>"

definition patient_without_data :: ProcessedPatient where
  "patient_without_data =
     \<lparr>id_pp = JStr ''P'', age_data = no_num, blood_pressure_data = no_bp,
      temperature_data = no_num\<rparr>"

text \<open>
  An unsigned integer or decimal numeral, as the specification of the age field puts
  it: digits, or digits, a point and digits. Its value is the integer part plus the
  fraction part over the power of ten of its length.
\<close>

definition all_digits :: "string \<Rightarrow> bool" where
  "all_digits s = (s \<noteq> [] \<and> list_all is_digit s)"



section \<open>Properties\<close>

subsection \<open>Splitting strings and reading numerals\<close>

lemma is_digit_not_special:
  assumes "is_digit c"
  shows "\<not> is_ws c" "c \<noteq> CHR ''-''" "c \<noteq> CHR ''+''" "c \<noteq> CHR ''I''" "c \<noteq> CHR ''.''"
    "c \<noteq> CHR ''e''" "c \<noteq> CHR ''E''" "c \<noteq> CHR ''/''"
  using assms by (auto simp: is_digit_def is_ws_def)

lemma takeWhile_digits_stop:
  assumes "list_all is_digit ds" and "rest = [] \<or> \<not> is_digit (hd rest)"
  shows "takeWhile is_digit (ds @ rest) = ds" and "dropWhile is_digit (ds @ rest) = rest"
proof -
  have a: "\<And>x. x \<in> set ds \<Longrightarrow> is_digit x" using assms(1) by (simp add: list_all_iff)
  have t: "takeWhile is_digit rest = []" using assms(2) by (cases rest) auto
  have d: "dropWhile is_digit rest = rest" using assms(2) by (cases rest) auto
  show "takeWhile is_digit (ds @ rest) = ds" using a t by (simp add: takeWhile_append2)
  show "dropWhile is_digit (ds @ rest) = rest" using a d by (simp add: dropWhile_append2)
qed

lemma exponent_part_none:
  assumes "rest = [] \<or> (hd rest \<noteq> CHR ''e'' \<and> hd rest \<noteq> CHR ''E'')"
  shows "exponent_part rest = 0"
  using assms by (cases rest) (auto simp: exponent_part_def)

lemma parseFloat_head:
  assumes "all_digits ip"
  shows "dropWhile is_ws (ip @ r) = ip @ r" and "ip @ r \<noteq> []" and "hd (ip @ r) \<noteq> CHR ''-''"
    and "hd (ip @ r) \<noteq> CHR ''+''" and "\<not> starts_with ''Infinity'' (ip @ r)"
proof -
  obtain c cs where ip: "ip = c # cs" and c: "is_digit c"
    using assms by (cases ip) (auto simp: all_digits_def)
  show "dropWhile is_ws (ip @ r) = ip @ r" using ip c is_digit_not_special(1) by simp
  show "ip @ r \<noteq> []" using ip by simp
  show "hd (ip @ r) \<noteq> CHR ''-''" using ip c is_digit_not_special(2) by auto
  show "hd (ip @ r) \<noteq> CHR ''+''" using ip c is_digit_not_special(3) by auto
  show "\<not> starts_with ''Infinity'' (ip @ r)" using ip c is_digit_not_special(4) by auto
qed


lemma parseFloat_fraction_prefix:
  assumes ip: "all_digits ip" and fp: "list_all is_digit fp"
    and rest: "rest = [] \<or>
      (\<not> is_digit (hd rest) \<and> hd rest \<noteq> CHR ''e'' \<and> hd rest \<noteq> CHR ''E'')"
  shows "parseFloat (ip @ CHR ''.'' # fp @ rest) =
           Fin (rat_of_nat (digits_val (ip @ fp)) / 10 ^ length fp)"
proof -
  have ds: "list_all is_digit ip" and ne: "ip \<noteq> []" using ip by (auto simp: all_digits_def)
  have "\<not> is_digit CHR ''.''" by (simp add: is_digit_def)
  then have tw: "takeWhile is_digit (ip @ CHR ''.'' # fp @ rest) = ip"
    "dropWhile is_digit (ip @ CHR ''.'' # fp @ rest) = CHR ''.'' # fp @ rest"
    using takeWhile_digits_stop [OF ds, of "CHR ''.'' # fp @ rest"] by auto
  have tw2: "takeWhile is_digit (fp @ rest) = fp" "dropWhile is_digit (fp @ rest) = rest"
    using takeWhile_digits_stop [OF fp, of rest] rest by auto
  have ex: "exponent_part rest = 0" using rest by (intro exponent_part_none) auto
  show ?thesis
    using parseFloat_head [OF ip, of "CHR ''.'' # fp @ rest"] tw tw2 ex ne
    by (simp add: parseFloat_def Let_def scale10_def)
qed













subsection \<open>The end-to-end example\<close>

text \<open>
  C1, as the specification states it, fails: on the batch of three records the list
  of high-risk patients is not \<open>["B"]\<close>. Patient A has the reading 120/80, whose
  diastolic value 80 puts it in stage 1 (score 3); with the age score 1 the total is 4,
  and 4 is high risk.
\<close>

theorem C1_high_risk_not_only_B:
  "\<not> (high_risk_patients (generateAlerts (processPatients example_batch)) = [JStr ''B''] \<and>
      fever_patients (generateAlerts (processPatients example_batch)) = [JStr ''C''] \<and>
      data_quality_issues (generateAlerts (processPatients example_batch)) = [JStr ''C''] \<and>
      total (getProcessingStats (processPatients example_batch)) = 3 \<and>
      fullyValid (getProcessingStats (processPatients example_batch)) = 2)"
  by code_simp

text \<open>
  C1, amended: on the batch of three records the pipeline yields the high-risk
  patients \<open>["A", "B"]\<close>, the fever patients \<open>["C"]\<close>, the data-quality issues \<open>["C"]\<close>,
  and the statistics count 3 patients, 2 of them fully valid.
\<close>

theorem C1_example_batch:
  "high_risk_patients (generateAlerts (processPatients example_batch)) =
     [JStr ''A'', JStr ''B''] \<and>
   fever_patients (generateAlerts (processPatients example_batch)) = [JStr ''C''] \<and>
   data_quality_issues (generateAlerts (processPatients example_batch)) = [JStr ''C''] \<and>
   total (getProcessingStats (processPatients example_batch)) = 3 \<and>
   fullyValid (getProcessingStats (processPatients example_batch)) = 2"
  by code_simp

subsection \<open>Risk scores\<close>

lemma calculateBloodPressureRisk_le: "calculateBloodPressureRisk p \<le> 4"
  by (simp add: calculateBloodPressureRisk_def Let_def
           split: option.splits BloodPressureStage.splits)

lemma calculateTemperatureRisk_le: "calculateTemperatureRisk p \<le> 2"
  by (simp add: calculateTemperatureRisk_def Let_def split: option.splits)

lemma calculateAgeRisk_le: "calculateAgeRisk p \<le> 2"
  by (simp add: calculateAgeRisk_def Let_def split: option.splits)

text \<open>
  C2: for a processed patient with a valid blood-pressure pair, the score of
  \<open>calculateBloodPressureRisk\<close> is that of the first rule of the ordered table that
  matches the pair (and 0 when none does); it is 1 for (119, 79), 2 for (125, 70),
  3 for (135, 70), 3 for (110, 85) and 4 for (145, 70).
\<close>

theorem C2_blood_pressure_rules:
  assumes "bp_valid (blood_pressure_data p)"
    and "systolic (blood_pressure_data p) = Some s"
    and "diastolic (blood_pressure_data p) = Some d"
  shows "calculateBloodPressureRisk p =
           (case first_match bp_rules (s, d) of Some k \<Rightarrow> k | None \<Rightarrow> 0) \<and>
         ((s, d) = (Fin 119, Fin 79) \<longrightarrow> calculateBloodPressureRisk p = 1) \<and>
         ((s, d) = (Fin 125, Fin 70) \<longrightarrow> calculateBloodPressureRisk p = 2) \<and>
         ((s, d) = (Fin 135, Fin 70) \<longrightarrow> calculateBloodPressureRisk p = 3) \<and>
         ((s, d) = (Fin 110, Fin 85) \<longrightarrow> calculateBloodPressureRisk p = 3) \<and>
         ((s, d) = (Fin 145, Fin 70) \<longrightarrow> calculateBloodPressureRisk p = 4)"
  using assms
  by (simp add: calculateBloodPressureRisk_def finalStage_def bp_rules_def Let_def)

theorem C2_blood_pressure_rules_witness:
  "calculateBloodPressureRisk (patient_with_bp 119 79) = 1 \<and>
   calculateBloodPressureRisk (patient_with_bp 125 70) = 2 \<and>
   calculateBloodPressureRisk (patient_with_bp 135 70) = 3 \<and>
   calculateBloodPressureRisk (patient_with_bp 110 85) = 3 \<and>
   calculateBloodPressureRisk (patient_with_bp 145 70) = 4"
  using C2_blood_pressure_rules [of "patient_with_bp 119 79" "Fin 119" "Fin 79"]
        C2_blood_pressure_rules [of "patient_with_bp 125 70" "Fin 125" "Fin 70"]
        C2_blood_pressure_rules [of "patient_with_bp 135 70" "Fin 135" "Fin 70"]
        C2_blood_pressure_rules [of "patient_with_bp 110 85" "Fin 110" "Fin 85"]
        C2_blood_pressure_rules [of "patient_with_bp 145 70" "Fin 145" "Fin 70"]
  by (simp add: patient_with_bp_def)

text \<open>
  C7: for every processed patient, a dimension whose field is invalid scores 0, the
  total risk is the sum of the three scores, and the total is at most 8 (it is a
  natural number, so at least 0).
\<close>

theorem C7_total_risk:
  "(\<not> bp_valid (blood_pressure_data p) \<longrightarrow> calculateBloodPressureRisk p = 0) \<and>
   (\<not> valid (temperature_data p) \<longrightarrow> calculateTemperatureRisk p = 0) \<and>
   (\<not> valid (age_data p) \<longrightarrow> calculateAgeRisk p = 0) \<and>
   calculateTotalRisk p =
     calculateBloodPressureRisk p + calculateTemperatureRisk p + calculateAgeRisk p \<and>
   calculateTotalRisk p \<le> 8"
proof -
  have bp: "\<not> bp_valid (blood_pressure_data p) \<longrightarrow> calculateBloodPressureRisk p = 0"
    by (simp add: calculateBloodPressureRisk_def Let_def split: option.splits)
  have tp: "\<not> valid (temperature_data p) \<longrightarrow> calculateTemperatureRisk p = 0"
    by (simp add: calculateTemperatureRisk_def Let_def split: option.splits)
  have ag: "\<not> valid (age_data p) \<longrightarrow> calculateAgeRisk p = 0"
    by (simp add: calculateAgeRisk_def Let_def split: option.splits)
  have tot: "calculateTotalRisk p =
     calculateBloodPressureRisk p + calculateTemperatureRisk p + calculateAgeRisk p"
    by (simp add: calculateTotalRisk_def Let_def)
  have "calculateTotalRisk p \<le> 8"
    using calculateBloodPressureRisk_le [of p] calculateTemperatureRisk_le [of p]
      calculateAgeRisk_le [of p] tot by linarith
  with bp tp ag tot show ?thesis by blast
qed

theorem C7_total_risk_witness:
  "\<not> bp_valid (blood_pressure_data patient_without_data) \<and>
   \<not> valid (temperature_data patient_without_data) \<and>
   \<not> valid (age_data patient_without_data) \<and>
   calculateBloodPressureRisk patient_without_data = 0 \<and>
   calculateTemperatureRisk patient_without_data = 0 \<and>
   calculateAgeRisk patient_without_data = 0 \<and>
   calculateTotalRisk patient_without_data = 0"
  using C7_total_risk [of patient_without_data]
  by (simp add: patient_without_data_def no_num_def no_bp_def)

subsection \<open>Temperature\<close>

text \<open>
  What \<open>calculateTemperatureRisk\<close> returns on the three bands of a valid reading.
\<close>

lemma calculateTemperatureRisk_bands:
  assumes "valid (temperature_data p)" and "num_value (temperature_data p) = Some v"
  shows "(js_le v 99.5 \<longrightarrow> calculateTemperatureRisk p = 0) \<and>
         (js_ge v 99.6 \<and> js_le v 100.9 \<longrightarrow> calculateTemperatureRisk p = 1) \<and>
         (js_ge v 101 \<longrightarrow> calculateTemperatureRisk p = 2)"
  using assms by (cases v) (auto simp: calculateTemperatureRisk_def Let_def)

text \<open>
  C3 says that the three temperature bands cover every valid reading, so that no
  valid reading reaches the branch for invalid or missing data. The reading 100.95 is
  accepted by \<open>processTemperature\<close> as valid, lies in none of the bands, and reaches
  that branch: its score is 0 and its category is \<open>TEMP_INVALID\<close>, although \<open>hasFever\<close>
  counts it as a fever.
\<close>

theorem C3_reading_between_bands:
  "processTemperature (JNum (Fin 100.95)) = temperature_data (patient_with_temp 100.95) \<and>
   valid (temperature_data (patient_with_temp 100.95)) \<and>
   calculateTemperatureRisk (patient_with_temp 100.95) = 0 \<and>
   getTemperatureCategory (patient_with_temp 100.95) = TEMP_INVALID \<and>
   hasFever (patient_with_temp 100.95)"
  by code_simp

text \<open>
  C8: for every processed patient, \<open>hasFever\<close> holds exactly when the temperature
  field is valid and its value is at least 99.6. It does not depend on the other two
  fields (so not on the total risk), and a valid reading of 101 or more, whose
  temperature score is 2, is a fever.
\<close>

theorem C8_hasFever:
  "(hasFever p \<longleftrightarrow>
      valid (temperature_data p) \<and>
      (\<exists>v. num_value (temperature_data p) = Some v \<and> js_ge v 99.6)) \<and>
   hasFever (p\<lparr>age_data := a, blood_pressure_data := b\<rparr>) = hasFever p \<and>
   (\<forall>v. valid (temperature_data p) \<and> num_value (temperature_data p) = Some v \<and> js_ge v 101
        \<longrightarrow> hasFever p \<and> calculateTemperatureRisk p = 2)"
proof -
  have 1: "hasFever p \<longleftrightarrow>
      valid (temperature_data p) \<and>
      (\<exists>v. num_value (temperature_data p) = Some v \<and> js_ge v 99.6)"
    by (auto simp: hasFever_def Let_def split: option.splits)
  have 2: "hasFever (p\<lparr>age_data := a, blood_pressure_data := b\<rparr>) = hasFever p"
    by (simp add: hasFever_def)
  have 3: "hasFever p \<and> calculateTemperatureRisk p = 2"
    if "valid (temperature_data p) \<and> num_value (temperature_data p) = Some v \<and> js_ge v 101"
    for v
    using that by (cases v) (auto simp: hasFever_def calculateTemperatureRisk_def Let_def)
  from 1 2 3 show ?thesis by blast
qed

theorem C8_hasFever_witness:
  "valid (temperature_data (patient_with_temp 101.8)) \<and>
   num_value (temperature_data (patient_with_temp 101.8)) = Some (Fin 101.8) \<and>
   js_ge (Fin 101.8) 101 \<and>
   hasFever (patient_with_temp 101.8) \<and>
   calculateTemperatureRisk (patient_with_temp 101.8) = 2"
  using C8_hasFever [of "patient_with_temp 101.8"] by (simp add: patient_with_temp_def)

subsection \<open>Batch processing\<close>

lemma getProcessingStats_loop_counts:
  "fullyValid (getProcessingStats_loop ps st) =
     fullyValid st + length (filter (\<lambda>p. \<not> hasDataQualityIssues p) ps) \<and>
   dataQualityIssues (getProcessingStats_loop ps st) =
     dataQualityIssues st + length (filter hasDataQualityIssues ps) \<and>
   total (getProcessingStats_loop ps st) = total st"
  by (induction ps arbitrary: st) (auto simp: Let_def hasDataQualityIssues_def)

text \<open>
  C9: for every list of processed patients, the statistics count each patient in
  exactly one of \<open>fullyValid\<close> and \<open>dataQualityIssues\<close>: the two counters add up to
  \<open>total\<close>, the length of the list; \<open>dataQualityIssues\<close> counts the patients for which
  \<open>hasDataQualityIssues\<close> holds and \<open>fullyValid\<close> the others; and
  \<open>hasDataQualityIssues\<close> holds when at least one of the three fields is invalid.
\<close>

theorem C9_stats_partition:
  "fullyValid (getProcessingStats ps) + dataQualityIssues (getProcessingStats ps) =
     total (getProcessingStats ps) \<and>
   total (getProcessingStats ps) = length ps \<and>
   dataQualityIssues (getProcessingStats ps) = length (filter hasDataQualityIssues ps) \<and>
   fullyValid (getProcessingStats ps) =
     length (filter (\<lambda>p. \<not> hasDataQualityIssues p) ps) \<and>
   (hasDataQualityIssues p \<longleftrightarrow>
      \<not> valid (age_data p) \<or> \<not> bp_valid (blood_pressure_data p) \<or>
      \<not> valid (temperature_data p))"
proof -
  let ?st = "\<lparr>total = length ps, validAge = 0, validBP = 0, validTemp = 0,
              fullyValid = 0, dataQualityIssues = 0\<rparr>"
  have c: "fullyValid (getProcessingStats ps) =
             length (filter (\<lambda>p. \<not> hasDataQualityIssues p) ps)"
    "dataQualityIssues (getProcessingStats ps) = length (filter hasDataQualityIssues ps)"
    "total (getProcessingStats ps) = length ps"
    using getProcessingStats_loop_counts [of ps ?st] by (simp_all add: getProcessingStats_def)
  have "length (filter hasDataQualityIssues ps) +
        length (filter (\<lambda>p. \<not> hasDataQualityIssues p) ps) = length ps"
    by (rule sum_length_filter_compl)
  with c show ?thesis by (simp add: hasDataQualityIssues_def)
qed

theorem C9_stats_partition_witness:
  "\<not> valid (age_data patient_without_data) \<and>
   hasDataQualityIssues patient_without_data \<and>
   fullyValid (getProcessingStats (processPatients example_batch)) = 2 \<and>
   dataQualityIssues (getProcessingStats (processPatients example_batch)) = 1 \<and>
   total (getProcessingStats (processPatients example_batch)) = 3"
proof -
  let ?S = "getProcessingStats (processPatients example_batch)"
  note c = C9_stats_partition [of "processPatients example_batch" patient_without_data]
  have n: "\<not> valid (age_data patient_without_data)"
    by (simp add: patient_without_data_def no_num_def)
  with c have q: "hasDataQualityIssues patient_without_data" by blast
  have "length (filter hasDataQualityIssues (processPatients example_batch)) = 1"
    by code_simp
  with c have d: "dataQualityIssues ?S = 1" by simp
  have "length (processPatients example_batch) = 3"
    by code_simp
  with c have t: "total ?S = 3" by simp
  from c have "fullyValid ?S + dataQualityIssues ?S = total ?S" by blast
  with d t have "fullyValid ?S = 2" by linarith
  with n q d t show ?thesis by blast
qed

text \<open>
  The identifiers of the processed patients are the raw \<open>patient_id\<close> values of the
  records that have a truthy one, in the order of the batch; the other records leave
  no patient behind.
\<close>

lemma processPatients_loop_ids:
  "map id_pp (fst (processPatients_loop rs i (res, errs))) =
     map id_pp res @
     map (\<lambda>r. get_prop r ''patient_id'')
       (filter (\<lambda>r. truthy (optional_prop r ''patient_id'')) rs)"
proof (induction rs arbitrary: i res errs)
  case Nil
  then show ?case by simp
next
  case (Cons r rs)
  show ?case
  proof (cases "truthy (optional_prop r ''patient_id'')")
    case False
    then show ?thesis using Cons.IH by simp
  next
    case True
    then have "r \<noteq> JNull" "r \<noteq> JUndefined"
      by (auto simp: optional_prop_def)
    then show ?thesis using True Cons.IH by (simp add: processPatient_def)
  qed
qed

lemma processPatients_ids:
  "map id_pp (processPatients rs) =
     map (\<lambda>r. get_prop r ''patient_id'')
       (filter (\<lambda>r. truthy (optional_prop r ''patient_id'')) rs)"
  using processPatients_loop_ids [of rs 0 "[]" "[]"] by (simp add: processPatients_def)

text \<open>
  C4 says that the identifier of a processed patient is the raw \<open>patient_id\<close> trimmed,
  and turned into a string when it is a number, and that a record whose \<open>patient_id\<close>
  is empty after that is left out. \<open>processPatient\<close> stores the raw value: the
  identifier \<open>" A "\<close> keeps its blanks, a record whose identifier is two blanks is
  processed, and the number 7 stays a number.
\<close>

theorem C4_identifier_stored_raw:
  "map id_pp (processPatients
      [JObj [(''patient_id'', JStr '' A ''), (''age'', JNum (Fin 45)),
             (''blood_pressure'', JStr ''120/80''), (''temperature'', JNum (Fin 98.6))]]) =
     [JStr '' A ''] \<and>
   map id_pp (processPatients [JObj [(''patient_id'', JStr ''  '')]]) = [JStr ''  ''] \<and>
   map id_pp (processPatients [JObj [(''patient_id'', JNum (Fin 7))]]) = [JNum (Fin 7)]"
  by code_simp

subsection \<open>Permissive and strict parsing\<close>

lemma age_regex_test_last:
  assumes "age_regex_test t"
  shows "t \<noteq> [] \<and> is_digit (last t)"
proof -
  let ?ip = "takeWhile is_digit t" and ?r = "dropWhile is_digit t"
  have t: "t = ?ip @ ?r" by simp
  have ip: "?ip \<noteq> []" using assms by (simp add: age_regex_test_def Let_def)
  have r: "?r = [] \<or> (hd ?r = CHR ''.'' \<and> tl ?r \<noteq> [] \<and> list_all is_digit (tl ?r))"
    using assms by (simp add: age_regex_test_def Let_def)
  have ne: "t \<noteq> []" using ip by auto
  show ?thesis
  proof (cases "?r = []")
    case True
    then have "\<forall>x\<in>set t. is_digit x" by (simp add: dropWhile_eq_Nil_conv)
    then show ?thesis using ne last_in_set by blast
  next
    case False
    with r have fp: "tl ?r \<noteq> []" "list_all is_digit (tl ?r)" by auto
    have "last t = last ?r" using False t by (metis last_appendR)
    also have "\<dots> = last (tl ?r)" using fp(1) by (simp add: last_tl)
    finally have "last t \<in> set (tl ?r)" using fp(1) by simp
    then show ?thesis using fp(2) ne by (auto simp: list_all_iff)
  qed
qed

text \<open>
  C10: the temperature normaliser accepts \<open>"98.6abc"\<close> with the value 98.6, and the
  blood-pressure normaliser reads each side of \<open>"120abc/80xyz"\<close> in the same way,
  because \<open>parseFloat\<close> reads a leading decimal numeral and ignores what follows it
  (anything that does not continue the numeral); the age normaliser rejects every
  string whose trimmed form ends in a character that is not a digit.
\<close>

theorem C10_prefix_parsing:
  "processTemperature (JStr ''98.6abc'') =
     \<lparr>valid = True, num_value = Some (Fin 98.6), original = JStr ''98.6abc''\<rparr> \<and>
   processBloodPressure (JStr ''120abc/80xyz'') =
     \<lparr>bp_valid = True, systolic = Some (Fin 120), diastolic = Some (Fin 80),
      bp_original = JStr ''120abc/80xyz''\<rparr> \<and>
   (\<forall>ip fp c rest.
      all_digits ip \<and> all_digits fp \<and> \<not> is_digit c \<and> c \<noteq> CHR ''e'' \<and> c \<noteq> CHR ''E'' \<longrightarrow>
      parseFloat (ip @ CHR ''.'' # fp @ c # rest) = parseFloat (ip @ CHR ''.'' # fp)) \<and>
   (\<forall>s. trim s \<noteq> [] \<and> \<not> is_digit (last (trim s)) \<longrightarrow> \<not> valid (processAge (JStr s)))"
proof -
  have 1: "processTemperature (JStr ''98.6abc'') =
     \<lparr>valid = True, num_value = Some (Fin 98.6), original = JStr ''98.6abc''\<rparr>"
    by code_simp
  have 2: "processBloodPressure (JStr ''120abc/80xyz'') =
     \<lparr>bp_valid = True, systolic = Some (Fin 120), diastolic = Some (Fin 80),
      bp_original = JStr ''120abc/80xyz''\<rparr>"
    by code_simp
  have 3: "parseFloat (ip @ CHR ''.'' # fp @ c # rest) = parseFloat (ip @ CHR ''.'' # fp)"
    if "all_digits ip \<and> all_digits fp \<and> \<not> is_digit c \<and> c \<noteq> CHR ''e'' \<and> c \<noteq> CHR ''E''"
    for ip fp c rest
    using that parseFloat_fraction_prefix [of ip fp "c # rest"]
      parseFloat_fraction_prefix [of ip fp "[]"]
    by (simp add: all_digits_def)
  have 4: "\<not> valid (processAge (JStr s))"
    if "trim s \<noteq> [] \<and> \<not> is_digit (last (trim s))" for s
  proof -
    have "\<not> age_regex_test (trim s)" using that age_regex_test_last by blast
    then show ?thesis by (simp add: processAge_def Let_def)
  qed
  from 1 2 3 4 show ?thesis by blast
qed

theorem C10_prefix_parsing_witness:
  "parseFloat ''98.6abc'' = parseFloat ''98.6'' \<and>
   trim ''45abc'' \<noteq> [] \<and> \<not> is_digit (last (trim ''45abc'')) \<and>
   \<not> valid (processAge (JStr ''45abc''))"
proof -
  have h: "trim ''45abc'' \<noteq> [] \<and> \<not> is_digit (last (trim ''45abc''))"
    by (simp add: trim_def is_ws_def is_digit_def)
  have d: "all_digits ''98'' \<and> all_digits ''6'' \<and> \<not> is_digit CHR ''a'' \<and>
           CHR ''a'' \<noteq> CHR ''e'' \<and> CHR ''a'' \<noteq> CHR ''E''"
    by (simp add: all_digits_def is_digit_def)
  have "parseFloat (''98'' @ CHR ''.'' # ''6'' @ CHR ''a'' # ''bc'') =
        parseFloat (''98'' @ CHR ''.'' # ''6'')"
    using C10_prefix_parsing d by blast
  then have "parseFloat ''98.6abc'' = parseFloat ''98.6''" by simp
  with h C10_prefix_parsing show ?thesis by blast
qed

subsection \<open>Blood pressure\<close>

















subsection \<open>Age\<close>






end
